theory Spec2Isabelle
  imports Complex_Main
begin

section \<open>The Mark Levinson control client (mlctrl.py) as a shallow embedding\<close>

text \<open>
  The module \<^verbatim>\<open>mlctrl/mlctrl.py\<close> holds one class, \<^verbatim>\<open>MLCtrl\<close>: a cache of the
  device's state, a blocking TCP socket, and one method per request. Each method is
  translated below into a function from the object's fields to a result and the updated
  fields. Exceptions are values; a method that raises still hands back the fields as
  they were at the raise, because the object outlives the exception.

  Not part of the model: what \<^verbatim>\<open>print\<close> and the logger write. They change no field
  and no return value.
\<close>

subsection \<open>Python exceptions\<close>

text \<open>
  The exception classes the module can meet. \<^verbatim>\<open>ConnectionError\<close> and
  \<^verbatim>\<open>socket.gaierror\<close> are subclasses of \<^verbatim>\<open>OSError\<close> (which \<^verbatim>\<open>socket.error\<close>
  names); \<^verbatim>\<open>requests.exceptions.RequestException\<close> derives from \<^verbatim>\<open>IOError\<close>, that is
  \<^verbatim>\<open>OSError\<close>, too, and none of the others is a subclass of it.
\<close>

datatype exn =
    AttributeError
  | ConnectionError
  | GaiError
  | OSError
  | RequestException
  | UnicodeDecodeError
  | IndexError
  | KeyError
  | TypeError
  | ValueError
  | ZeroDivisionError
  | RecursionError

text \<open>\<^verbatim>\<open>except requests.exceptions.RequestException\<close>: the one class this handler takes.\<close>

fun is_RequestException :: "exn \<Rightarrow> bool" where
  "is_RequestException RequestException = True"
| "is_RequestException _ = False"

text \<open>
  The three handlers of \<^verbatim>\<open>_get_new_socket\<close>, in their order: \<^verbatim>\<open>ConnectionError\<close>,
  \<^verbatim>\<open>socket.gaierror\<close>, \<^verbatim>\<open>socket.error\<close>. The last is \<^verbatim>\<open>OSError\<close> and takes its
  subclasses as well.
\<close>

fun is_OSError :: "exn \<Rightarrow> bool" where
  "is_OSError ConnectionError = True"
| "is_OSError GaiError = True"
| "is_OSError OSError = True"
| "is_OSError RequestException = True"
| "is_OSError _ = False"

subsection \<open>Python strings\<close>

text \<open>\<^verbatim>\<open>s.split(c)\<close> for a separator of one character: never an empty list.\<close>

fun py_split :: "char \<Rightarrow> string \<Rightarrow> string list" where
  "py_split c [] = [[]]"
| "py_split c (x # xs) =
     (if x = c then [] # py_split c xs
      else (case py_split c xs of
              [] \<Rightarrow> [[x]]
            | w # ws \<Rightarrow> (x # w) # ws))"

fun starts_with :: "string \<Rightarrow> string \<Rightarrow> bool" where
  "starts_with [] ys = True"
| "starts_with (x # xs) [] = False"
| "starts_with (x # xs) (y # ys) = (x = y \<and> starts_with xs ys)"

text \<open>\<^verbatim>\<open>needle in hay\<close> on two strings: \<^verbatim>\<open>needle\<close> occurs as a contiguous run.\<close>

fun py_in :: "string \<Rightarrow> string \<Rightarrow> bool" where
  "py_in needle [] = (needle = [])"
| "py_in needle (y # ys) = (starts_with needle (y # ys) \<or> py_in needle ys)"

text \<open>\<^verbatim>\<open>xs[i]\<close> for \<^verbatim>\<open>i >= 0\<close>: \<^verbatim>\<open>IndexError\<close> past the end.\<close>

definition py_index :: "'a list \<Rightarrow> nat \<Rightarrow> exn + 'a" where
  "py_index xs i = (if i < length xs then Inr (xs ! i) else Inl IndexError)"

text \<open>\<^verbatim>\<open>s.replace(c, "")\<close> for one character \<^verbatim>\<open>c\<close>.\<close>

definition py_remove :: "char \<Rightarrow> string \<Rightarrow> string" where
  "py_remove c s = filter (\<lambda>x. x \<noteq> c) s"

definition CR :: char where
  "CR = CHR 0x0D"

definition LF :: char where
  "LF = CHR 0x0A"

subsection \<open>Python floats\<close>

text \<open>
  The type \<^verbatim>\<open>float\<close> and the builtins on it belong to Python, not to this
  repository. The model takes them as a parameter: a type \<open>'f\<close> of float values and
  a record of the operations that the module and the platform apply to them. A theorem
  with a free \<open>fl\<close> holds for every such record, and so for Python's own floats.

  \<^item> \<open>float_of_str\<close> is \<^verbatim>\<open>float(s)\<close> on a string; \<open>None\<close> stands for
    \<^verbatim>\<open>ValueError\<close>.
  \<^item> \<open>str_of_float\<close> is \<^verbatim>\<open>str(x)\<close>.
  \<^item> \<open>float_add\<close> and \<open>float_sub\<close> are \<^verbatim>\<open>x + y\<close> and \<^verbatim>\<open>x - y\<close>.
  \<^item> \<open>num_truediv\<close> is \<^verbatim>\<open>a / b\<close> on two numbers, each a float or an int.
  \<^item> \<open>float_bool\<close> is the truth value of a float in a condition.
  \<^item> \<open>lit_minus_1\<close>, \<open>lit_half\<close> and \<open>lit_zero\<close> are the literals \<^verbatim>\<open>-1.0\<close>,
    \<^verbatim>\<open>0.5\<close> and \<^verbatim>\<open>0.0\<close>.
\<close>

record 'f float_ops =
  float_of_str :: "string \<Rightarrow> 'f option"
  str_of_float :: "'f \<Rightarrow> string"
  float_add :: "'f \<Rightarrow> 'f \<Rightarrow> 'f"
  float_sub :: "'f \<Rightarrow> 'f \<Rightarrow> 'f"
  num_truediv :: "'f + int \<Rightarrow> 'f + int \<Rightarrow> exn + 'f"
  float_bool :: "'f \<Rightarrow> bool"
  lit_minus_1 :: 'f
  lit_half :: 'f
  lit_zero :: 'f

subsection \<open>Module constants\<close>

definition DEFAULT_SOURCES :: "string list" where
  "DEFAULT_SOURCES = []"

definition COMMAND_MAPPING :: "(string \<times> string) list" where
  "COMMAND_MAPPING =
     [(''POWER_OFF'', ''RQST:CS:PWR:STANDBY''),
      (''POWER_ON'', ''RQST:CS:PWR:ON''),
      (''SLEEP'', ''RQST:CS:PW:STANDBY''),
      (''VOLUME_UP'', ''RQST:CS:IRDWNUP:VOLUME_UP''),
      (''VOLUME_DOWN'', ''RQST:CS:IRDWNUP:VOLUME_DOWN''),
      (''VOLUME'', ''RQST:CS:VOL:''),
      (''MUTE_TOGGLE'', ''RQST:CS:MUTE:''),
      (''SOURCE'', ''RQST:CS:ACT:''),
      (''GET_SOURCES'', ''RQST:CS:REQ_ACT_LIST:?''),
      (''HEARTBEAT'', ''RQST:CS:PWR:?'')]"

definition POWER_ON :: string where
  "POWER_ON = ''ON''"

definition POWER_OFF :: string where
  "POWER_OFF = ''OFF''"

definition POWER_STANDBY :: string where
  "POWER_STANDBY = ''STANDBY''"

definition STATE_ON :: string where
  "STATE_ON = ''on''"

definition STATE_OFF :: string where
  "STATE_OFF = ''off''"

subsection \<open>The socket and the object's fields\<close>

text \<open>
  What one \<^verbatim>\<open>send\<close> followed by \<^verbatim>\<open>recv(64)\<close> and \<^verbatim>\<open>decode("utf-8")\<close> can do:
  \<^verbatim>\<open>send\<close> raises, \<^verbatim>\<open>recv\<close> raises, the bytes received are not UTF-8, or they
  decode to a text. (A text that \<^verbatim>\<open>recv(64)\<close> delivers has at most 64 bytes; the
  model does not need the bound and admits any text.)
\<close>

datatype io = SendRaises exn | RecvRaises exn | Undecodable | Text string

text \<open>
  The connected socket together with the device behind it. The device is the
  environment: \<open>replies k n\<close> is what the round trip number \<open>n\<close> (from 0) does, and
  \<open>sent k\<close> lists the payloads handed to \<^verbatim>\<open>send\<close> so far, oldest first. A theorem
  for every \<open>replies\<close> covers every device, also one whose answer depends on the
  request.
\<close>

record sock =
  replies :: "nat \<Rightarrow> io"
  sent :: "string list"

text \<open>
  The fields of an \<^verbatim>\<open>MLCtrl\<close> object, \<^verbatim>\<open>self._name\<close> to \<^verbatim>\<open>self._socket\<close>. A field
  that can hold \<^verbatim>\<open>None\<close> is an option.
\<close>

record 'f mlctrl =
  avr_name :: "string option"
  avr_host :: string
  avr_port :: int
  avr_zone :: string
  avr_mute :: string
  avr_volume :: 'f
  avr_state :: "string option"
  avr_power :: "string option"
  avr_current_source :: "string option"
  avr_sources :: "string list"
  avr_socket :: "sock option"

text \<open>What \<^verbatim>\<open>_exec_appcommand_post\<close> returns: \<^verbatim>\<open>False\<close> or the reply text.\<close>

datatype resp = RFalse | RText string

text \<open>
  \<^verbatim>\<open>try: body except requests.exceptions.RequestException: handler\<close>. The handler runs
  on the fields as the body left them; any other exception passes through.
\<close>

definition except_RequestException ::
  "(exn + 'a) \<times> 'f mlctrl \<Rightarrow> ('f mlctrl \<Rightarrow> (exn + 'a) \<times> 'f mlctrl) \<Rightarrow> (exn + 'a) \<times> 'f mlctrl" where
  "except_RequestException body handler =
     (case body of
        (Inl e, s) \<Rightarrow> if is_RequestException e then handler s else (Inl e, s)
      | (Inr v, s) \<Rightarrow> (Inr v, s))"

text \<open>Two statements in sequence: the second runs only if the first did not raise.\<close>

definition and_then ::
  "(exn + 'a) \<times> 'f mlctrl \<Rightarrow> ('f mlctrl \<Rightarrow> (exn + 'b) \<times> 'f mlctrl) \<Rightarrow> (exn + 'b) \<times> 'f mlctrl" where
  "and_then first rest =
     (case first of
        (Inl e, s) \<Rightarrow> (Inl e, s)
      | (Inr _, s) \<Rightarrow> rest s)"

subsection \<open>Transport\<close>

text \<open>The outcome of \<^verbatim>\<open>socket.socket(...)\<close> and \<^verbatim>\<open>connect((host, port))\<close>.\<close>

datatype conn = Connected "nat \<Rightarrow> io" | ConnectRaises exn

definition get_new_socket :: "conn \<Rightarrow> exn + sock option" where
  "get_new_socket c =
     (case c of
        Connected dev \<Rightarrow> Inr (Some \<lparr>replies = dev, sent = []\<rparr>)
      | ConnectRaises e \<Rightarrow>
          if e = ConnectionError then Inr None
          else if e = GaiError then Inr None
          else if is_OSError e then Inr None
          else Inl e)"

text \<open>
  \<^verbatim>\<open>_exec_appcommand_post\<close>. With \<^verbatim>\<open>self._socket\<close> equal to \<^verbatim>\<open>None\<close> the call
  \<^verbatim>\<open>self._socket.send\<close> raises \<^verbatim>\<open>AttributeError\<close>.
\<close>

definition exec_appcommand_post ::
  "string \<Rightarrow> string \<Rightarrow> 'f mlctrl \<Rightarrow> (exn + resp) \<times> 'f mlctrl" where
  "exec_appcommand_post command param s =
     except_RequestException
       (let payload = (if param \<noteq> [] then command @ param @ [CR] else command @ [CR]) in
        case avr_socket s of
          None \<Rightarrow> (Inl AttributeError, s)
        | Some k \<Rightarrow>
            (let s1 = s\<lparr>avr_socket := Some (k\<lparr>sent := sent k @ [payload]\<rparr>)\<rparr> in
             case replies k (length (sent k)) of
               SendRaises e \<Rightarrow> (Inl e, s1)
             | RecvRaises e \<Rightarrow> (Inl e, s1)
             | Undecodable \<Rightarrow> (Inl UnicodeDecodeError, s1)
             | Text t \<Rightarrow> (Inr (RText (py_remove LF (py_remove CR t))), s1)))
       (\<lambda>s'. (Inr RFalse, s'))"

definition send_command :: "string \<Rightarrow> string \<Rightarrow> 'f mlctrl \<Rightarrow> (exn + resp) \<times> 'f mlctrl" where
  "send_command command param s =
     (case map_of COMMAND_MAPPING command of
        None \<Rightarrow> (Inl KeyError, s)
      | Some comm \<Rightarrow> exec_appcommand_post comm param s)"

subsection \<open>Refreshing the cache\<close>

definition update_power_state :: "'f mlctrl \<Rightarrow> (exn + unit) \<times> 'f mlctrl" where
  "update_power_state s =
     except_RequestException
       (case send_command ''HEARTBEAT'' [] s of
          (Inl e, s1) \<Rightarrow> (Inl e, s1)
        | (Inr resp, s1) \<Rightarrow>
            if resp = RText ''RSP:CS:PWR:STANDBY'' then
              (Inr (), s1\<lparr>avr_power := Some POWER_STANDBY, avr_state := Some STATE_OFF\<rparr>)
            else if resp = RText ''RSP:CS:PWR:ON'' then
              (Inr (), s1\<lparr>avr_power := Some POWER_ON, avr_state := Some STATE_ON\<rparr>)
            else if resp = RText ''RSP:CS:PWR:OFF'' then
              (Inr (), s1\<lparr>avr_power := Some POWER_OFF, avr_state := Some STATE_OFF\<rparr>)
            else (Inr (), s1))
       (\<lambda>s'. (Inr (), s'))"

definition update_sources :: "'f mlctrl \<Rightarrow> (exn + unit) \<times> 'f mlctrl" where
  "update_sources s =
     except_RequestException
       (case send_command ''GET_SOURCES'' [] s of
          (Inl e, s1) \<Rightarrow> (Inl e, s1)
        | (Inr RFalse, s1) \<Rightarrow> (Inr (), s1)
        | (Inr (RText t), s1) \<Rightarrow>
            if t \<noteq> [] then
              if py_in ''RSP:CS:REQ_ACT_LIST:'' t then
                (case py_index (py_split CHR '':'' t) 3 of
                   Inl e \<Rightarrow> (Inl e, s1)
                 | Inr field \<Rightarrow>
                     (Inr (), s1\<lparr>avr_sources := py_split CHR '','' field\<rparr>))
              else (Inr (), s1)
            else (Inr (), s1))
       (\<lambda>s'. (Inr (), s'))"

text \<open>
  \<^verbatim>\<open>update_current_source\<close> calls itself when the reply carries the marker
  \<^verbatim>\<open>RSP:CS:ACT:\<close>, no \<^verbatim>\<open>ACK\<close>, and \<^verbatim>\<open>APROF\<close>. The source puts no bound on the
  nesting; the interpreter does, and raises \<^verbatim>\<open>RecursionError\<close> when its limit is
  reached. The first argument is the number of nested activations the interpreter still
  allows.
\<close>

fun update_current_source :: "nat \<Rightarrow> 'f mlctrl \<Rightarrow> (exn + unit) \<times> 'f mlctrl" where
  "update_current_source 0 s = (Inl RecursionError, s)"
| "update_current_source (Suc depth) s =
     except_RequestException
       (case send_command ''SOURCE'' ''?'' s of
          (Inl e, s1) \<Rightarrow> (Inl e, s1)
        | (Inr RFalse, s1) \<Rightarrow> (Inr (), s1)
        | (Inr (RText t), s1) \<Rightarrow>
            if t \<noteq> [] then
              if py_in ''RSP:CS:ACT:'' t then
                if py_in ''ACK'' t then (Inr (), s1)
                else if py_in ''APROF'' t then
                  and_then (update_current_source depth s1) (\<lambda>s2. (Inr (), s2))
                else
                  (case py_index (py_split CHR '':'' t) 3 of
                     Inl e \<Rightarrow> (Inl e, s1)
                   | Inr field \<Rightarrow> (Inr (), s1\<lparr>avr_current_source := Some field\<rparr>))
              else (Inr (), s1)
            else (Inr (), s1))
       (\<lambda>s'. (Inr (), s'))"

definition update_volume :: "'f float_ops \<Rightarrow> 'f mlctrl \<Rightarrow> (exn + unit) \<times> 'f mlctrl" where
  "update_volume fl s =
     except_RequestException
       (case send_command ''VOLUME'' ''?'' s of
          (Inl e, s1) \<Rightarrow> (Inl e, s1)
        | (Inr RFalse, s1) \<Rightarrow> (Inr (), s1)
        | (Inr (RText t), s1) \<Rightarrow>
            if t \<noteq> [] then
              if py_in ''RSP:CS:VOL:'' t \<or> py_in ''NTF:UI:VOL:'' t then
                if py_in ''ACK'' t then (Inr (), s1)
                else
                  (case py_index (py_split CHR '':'' t) 3 of
                     Inl e \<Rightarrow> (Inl e, s1)
                   | Inr field \<Rightarrow>
                       (case float_of_str fl field of
                          None \<Rightarrow> (Inr (), s1\<lparr>avr_volume := lit_minus_1 fl\<rparr>)
                        | Some v \<Rightarrow> (Inr (), s1\<lparr>avr_volume := v\<rparr>)))
              else (Inr (), s1)
            else (Inr (), s1))
       (\<lambda>s'. (Inr (), s'))"

definition update_mutestate :: "'f mlctrl \<Rightarrow> (exn + unit) \<times> 'f mlctrl" where
  "update_mutestate s =
     except_RequestException
       (case send_command ''MUTE_TOGGLE'' ''?'' s of
          (Inl e, s1) \<Rightarrow> (Inl e, s1)
        | (Inr RFalse, s1) \<Rightarrow> (Inr (), s1)
        | (Inr (RText t), s1) \<Rightarrow>
            if t \<noteq> [] then
              if py_in ''RSP:CS:MUTE:'' t then
                (case py_index (py_split CHR '':'' t) 3 of
                   Inl e \<Rightarrow> (Inl e, s1)
                 | Inr field \<Rightarrow> (Inr (), s1\<lparr>avr_mute := field\<rparr>))
              else (Inr (), s1)
            else (Inr (), s1))
       (\<lambda>s'. (Inr (), s'))"

definition update_all ::
  "'f float_ops \<Rightarrow> nat \<Rightarrow> 'f mlctrl \<Rightarrow> (exn + unit) \<times> 'f mlctrl" where
  "update_all fl depth s =
     and_then (update_power_state s) (\<lambda>s1.
     and_then (update_volume fl s1) (\<lambda>s2.
     and_then (update_mutestate s2) (\<lambda>s3.
       if avr_power s3 = Some POWER_ON then
         and_then (update_current_source depth s3) update_sources
       else (Inr (), s3))))"

subsection \<open>Commands\<close>

definition power_on :: "'f mlctrl \<Rightarrow> (exn + bool) \<times> 'f mlctrl" where
  "power_on s =
     except_RequestException
       (case send_command ''POWER_ON'' [] s of
          (Inl e, s1) \<Rightarrow> (Inl e, s1)
        | (Inr resp, s1) \<Rightarrow>
            (Inr True, s1\<lparr>avr_power := Some POWER_ON, avr_state := Some STATE_ON\<rparr>))
       (\<lambda>s'. (Inr False, s'))"

definition power_off :: "'f mlctrl \<Rightarrow> (exn + bool) \<times> 'f mlctrl" where
  "power_off s =
     except_RequestException
       (case send_command ''POWER_OFF'' [] s of
          (Inl e, s1) \<Rightarrow> (Inl e, s1)
        | (Inr resp, s1) \<Rightarrow>
            (Inr True, s1\<lparr>avr_power := Some POWER_OFF, avr_state := Some STATE_OFF\<rparr>))
       (\<lambda>s'. (Inr False, s'))"

definition sleep :: "'f mlctrl \<Rightarrow> (exn + bool) \<times> 'f mlctrl" where
  "sleep s =
     except_RequestException
       (case send_command ''SLEEP'' [] s of
          (Inl e, s1) \<Rightarrow> (Inl e, s1)
        | (Inr resp, s1) \<Rightarrow> (Inr True, s1))
       (\<lambda>s'. (Inr False, s'))"

text \<open>
  \<^verbatim>\<open>set_volume\<close> is called with a float: \<^verbatim>\<open>str(volume)\<close> is the parameter sent and
  \<^verbatim>\<open>float(volume)\<close> is \<^verbatim>\<open>volume\<close>. The test \<^verbatim>\<open>"ACK" in resp\<close> on \<^verbatim>\<open>False\<close> raises
  \<^verbatim>\<open>TypeError\<close>.
\<close>

definition set_volume ::
  "'f float_ops \<Rightarrow> 'f \<Rightarrow> 'f mlctrl \<Rightarrow> (exn + bool) \<times> 'f mlctrl" where
  "set_volume fl volume s =
     except_RequestException
       (case send_command ''VOLUME'' (str_of_float fl volume) s of
          (Inl e, s1) \<Rightarrow> (Inl e, s1)
        | (Inr RFalse, s1) \<Rightarrow> (Inl TypeError, s1)
        | (Inr (RText t), s1) \<Rightarrow>
            if py_in ''ACK'' t then (Inr True, s1\<lparr>avr_volume := volume\<rparr>)
            else (Inr True, s1))
       (\<lambda>s'. (Inr False, s'))"

definition volume_up :: "'f float_ops \<Rightarrow> 'f mlctrl \<Rightarrow> (exn + bool) \<times> 'f mlctrl" where
  "volume_up fl s =
     except_RequestException
       (let new_vol = float_add fl (avr_volume s) (lit_half fl) in
        and_then (set_volume fl new_vol s) (\<lambda>s1. (Inr True, s1)))
       (\<lambda>s'. (Inr False, s'))"

definition volume_down :: "'f float_ops \<Rightarrow> 'f mlctrl \<Rightarrow> (exn + bool) \<times> 'f mlctrl" where
  "volume_down fl s =
     except_RequestException
       (let new_vol = float_sub fl (avr_volume s) (lit_half fl) in
        and_then (set_volume fl new_vol s) (\<lambda>s1. (Inr True, s1)))
       (\<lambda>s'. (Inr False, s'))"

text \<open>
  \<^verbatim>\<open>select_source\<close>: the reply of \<^verbatim>\<open>send_command\<close> is dropped, and \<^verbatim>\<open>resp\<close> is
  bound by \<^verbatim>\<open>resp = self._current_source = source\<close>, so the test \<^verbatim>\<open>"ACK" in resp\<close>
  reads the requested name.
\<close>

definition select_source :: "string \<Rightarrow> 'f mlctrl \<Rightarrow> (exn + bool) \<times> 'f mlctrl" where
  "select_source source s =
     except_RequestException
       (case send_command ''SOURCE'' source s of
          (Inl e, s1) \<Rightarrow> (Inl e, s1)
        | (Inr _, s1) \<Rightarrow>
            (let s2 = s1\<lparr>avr_current_source := Some source\<rparr>; resp = source in
             if py_in ''ACK'' resp then (Inr True, s2\<lparr>avr_current_source := Some source\<rparr>)
             else (Inr True, s2)))
       (\<lambda>s'. (Inr False, s'))"

text \<open>
  \<^verbatim>\<open>mute\<close>: the second branch, \<^verbatim>\<open>elif not mute\<close>, is taken whenever the first is
  not, so the two are an if and its else.
\<close>

definition mute :: "bool \<Rightarrow> 'f mlctrl \<Rightarrow> (exn + bool) \<times> 'f mlctrl" where
  "mute m s =
     except_RequestException
       (if m then
          (case send_command ''MUTE_TOGGLE'' ''ON'' s of
             (Inl e, s1) \<Rightarrow> (Inl e, s1)
           | (Inr _, s1) \<Rightarrow> (Inr True, s1\<lparr>avr_mute := STATE_ON\<rparr>))
        else
          (case send_command ''MUTE_TOGGLE'' ''OFF'' s of
             (Inl e, s1) \<Rightarrow> (Inl e, s1)
           | (Inr _, s1) \<Rightarrow> (Inr True, s1\<lparr>avr_mute := STATE_OFF\<rparr>)))
       (\<lambda>s'. (Inr False, s'))"

subsection \<open>The message decoder\<close>

text \<open>Python values of the types that meet at the object's surface.\<close>

datatype 'f pyval = PStr string | PFloat 'f | PInt int | PBool bool | PNone

text \<open>
  \<^verbatim>\<open>decode_message\<close> splits the message at the colons, builds three tables
  (\<^verbatim>\<open>HEADERS\<close>, \<^verbatim>\<open>SOURCES\<close>, \<^verbatim>\<open>COMMANDS\<close>) that it never reads, takes the fields 0
  to 3 in this order, one assignment each, and ends without a \<^verbatim>\<open>return\<close>: the caller
  gets \<^verbatim>\<open>None\<close>. It reads and writes no field of the object. An exception is paired
  with the assignment that raised it, as the traceback tells it.
\<close>

datatype field = Header | Source | Command | Param

definition decode_message :: "string \<Rightarrow> (exn \<times> field) + 'f pyval" where
  "decode_message message =
     (let message_components = py_split CHR '':'' message in
      case py_index message_components 0 of
        Inl e \<Rightarrow> Inl (e, Header)
      | Inr header \<Rightarrow>
          (case py_index message_components 1 of
             Inl e \<Rightarrow> Inl (e, Source)
           | Inr source \<Rightarrow>
               (case py_index message_components 2 of
                  Inl e \<Rightarrow> Inl (e, Command)
                | Inr command \<Rightarrow>
                    (case py_index message_components 3 of
                       Inl e \<Rightarrow> Inl (e, Param)
                     | Inr param \<Rightarrow> Inr PNone))))"

subsection \<open>Construction and properties\<close>

text \<open>
  \<^verbatim>\<open>__init__\<close>: the fields, the socket, one \<^verbatim>\<open>update_all\<close>, and a \<^verbatim>\<open>print\<close> of
  \<^verbatim>\<open>"Initialised, power is: " + self._power\<close>, which raises \<^verbatim>\<open>TypeError\<close> while the
  power is still \<^verbatim>\<open>None\<close>.
\<close>

definition initial_fields ::
  "'f float_ops \<Rightarrow> string \<Rightarrow> int \<Rightarrow> string option \<Rightarrow> 'f mlctrl" where
  "initial_fields fl host port name =
     \<lparr>avr_name = name, avr_host = host, avr_port = port,
      avr_zone = ''Main Zone'', avr_mute = STATE_OFF, avr_volume = lit_minus_1 fl,
      avr_state = None, avr_power = None, avr_current_source = None,
      avr_sources = DEFAULT_SOURCES, avr_socket = None\<rparr>"

definition MLCtrl_init ::
  "'f float_ops \<Rightarrow> string \<Rightarrow> int \<Rightarrow> string option \<Rightarrow> conn \<Rightarrow> nat
     \<Rightarrow> (exn + unit) \<times> 'f mlctrl" where
  "MLCtrl_init fl host port name c depth =
     (let s0 = initial_fields fl host port name in
      case get_new_socket c of
        Inl e \<Rightarrow> (Inl e, s0)
      | Inr k \<Rightarrow>
          and_then (update_all fl depth (s0\<lparr>avr_socket := k\<rparr>)) (\<lambda>s1.
            case avr_power s1 of
              None \<Rightarrow> (Inl TypeError, s1)
            | Some p \<Rightarrow> (Inr (), s1)))"

definition sources_prop :: "'f mlctrl \<Rightarrow> string list" where
  "sources_prop s = avr_sources s"

definition current_source_prop :: "'f mlctrl \<Rightarrow> string option" where
  "current_source_prop s = avr_current_source s"

text \<open>The property \<^verbatim>\<open>volume\<close> returns \<^verbatim>\<open>str(self._volume)\<close>.\<close>

definition volume_prop :: "'f float_ops \<Rightarrow> 'f mlctrl \<Rightarrow> 'f pyval" where
  "volume_prop fl s = PStr (str_of_float fl (avr_volume s))"

definition power_prop :: "'f mlctrl \<Rightarrow> string option" where
  "power_prop s = avr_power s"

definition state_prop :: "'f mlctrl \<Rightarrow> string option" where
  "state_prop s = avr_state s"

definition muted_prop :: "'f mlctrl \<Rightarrow> bool" where
  "muted_prop s = (avr_mute s = STATE_ON)"

definition is_on :: "'f mlctrl \<Rightarrow> bool" where
  "is_on s = (avr_state s = Some STATE_ON)"

definition is_off :: "'f mlctrl \<Rightarrow> bool" where
  "is_off s = (avr_state s = Some STATE_OFF)"

subsection \<open>The platform's use of the volume (media_player.py)\<close>

text \<open>The truth value Python gives a value in a condition.\<close>

fun py_truthy :: "'f float_ops \<Rightarrow> 'f pyval \<Rightarrow> bool" where
  "py_truthy fl (PStr t) = (t \<noteq> [])"
| "py_truthy fl (PFloat x) = float_bool fl x"
| "py_truthy fl (PInt i) = (i \<noteq> 0)"
| "py_truthy fl (PBool b) = b"
| "py_truthy fl PNone = False"

text \<open>
  A value as an operand of \<^verbatim>\<open>/\<close>: a float, or an int (a bool is an int); a string
  and \<^verbatim>\<open>None\<close> are no numbers.
\<close>

fun as_num :: "'f pyval \<Rightarrow> ('f + int) option" where
  "as_num (PFloat x) = Some (Inl x)"
| "as_num (PInt i) = Some (Inr i)"
| "as_num (PBool b) = Some (Inr (if b then 1 else 0))"
| "as_num (PStr t) = None"
| "as_num PNone = None"

text \<open>\<^verbatim>\<open>a / b\<close>: \<^verbatim>\<open>TypeError\<close> unless both operands are numbers.\<close>

definition py_truediv :: "'f float_ops \<Rightarrow> 'f pyval \<Rightarrow> 'f pyval \<Rightarrow> exn + 'f pyval" where
  "py_truediv fl a b =
     (case (as_num a, as_num b) of
        (Some x, Some y) \<Rightarrow>
          (case num_truediv fl x y of Inl e \<Rightarrow> Inl e | Inr q \<Rightarrow> Inr (PFloat q))
      | _ \<Rightarrow> Inl TypeError)"

text \<open>
  The expression \<^verbatim>\<open>self._avr.volume / 100 if self._avr.volume else 0.0\<close> of
  \<^verbatim>\<open>MLAvrDevice.__init__\<close> and \<^verbatim>\<open>MLAvrDevice.update\<close>.
\<close>

definition MLAvrDevice_volume :: "'f float_ops \<Rightarrow> 'f mlctrl \<Rightarrow> exn + 'f pyval" where
  "MLAvrDevice_volume fl s =
     (if py_truthy fl (volume_prop fl s) then py_truediv fl (volume_prop fl s) (PInt 100)
      else Inr (PFloat (lit_zero fl)))"

text \<open>
  \<^verbatim>\<open>MLAvrDevice.update\<close>, as far as it concerns the client: \<^verbatim>\<open>update_all\<close>, then the
  expression above. The entity's own attributes are not modelled.
\<close>

definition MLAvrDevice_update ::
  "'f float_ops \<Rightarrow> nat \<Rightarrow> 'f mlctrl \<Rightarrow> (exn + unit) \<times> 'f mlctrl" where
  "MLAvrDevice_update fl depth s =
     and_then (update_all fl depth s) (\<lambda>s1.
       case MLAvrDevice_volume fl s1 of
         Inl e \<Rightarrow> (Inl e, s1)
       | Inr v \<Rightarrow> (Inr (), s1))"

subsection \<open>The public operations as one step function\<close>

datatype 'f op =
    UpdateAll
  | UpdatePowerState
  | UpdateSources
  | UpdateCurrentSource
  | UpdateVolume
  | UpdateMutestate
  | PowerOn
  | PowerOff
  | Sleep
  | VolumeUp
  | VolumeDown
  | SetVolume 'f
  | SelectSource string
  | Mute bool
  | SendCommand string string
  | DecodeMessage string

text \<open>The fields after one public method has returned or raised.\<close>

fun run_op :: "'f float_ops \<Rightarrow> nat \<Rightarrow> 'f op \<Rightarrow> 'f mlctrl \<Rightarrow> 'f mlctrl" where
  "run_op fl depth UpdateAll s = snd (update_all fl depth s)"
| "run_op fl depth UpdatePowerState s = snd (update_power_state s)"
| "run_op fl depth UpdateSources s = snd (update_sources s)"
| "run_op fl depth UpdateCurrentSource s = snd (update_current_source depth s)"
| "run_op fl depth UpdateVolume s = snd (update_volume fl s)"
| "run_op fl depth UpdateMutestate s = snd (update_mutestate s)"
| "run_op fl depth PowerOn s = snd (power_on s)"
| "run_op fl depth PowerOff s = snd (power_off s)"
| "run_op fl depth Sleep s = snd (sleep s)"
| "run_op fl depth VolumeUp s = snd (volume_up fl s)"
| "run_op fl depth VolumeDown s = snd (volume_down fl s)"
| "run_op fl depth (SetVolume v) s = snd (set_volume fl v s)"
| "run_op fl depth (SelectSource n) s = snd (select_source n s)"
| "run_op fl depth (Mute m) s = snd (mute m s)"
| "run_op fl depth (SendCommand c p) s = snd (send_command c p s)"
| "run_op fl depth (DecodeMessage m) s = s"

text \<open>The on/off state that belongs to a power mode.\<close>

definition derived_state :: "string option \<Rightarrow> string option" where
  "derived_state p =
     (case p of
        None \<Rightarrow> None
      | Some x \<Rightarrow> if x = POWER_ON then Some STATE_ON else Some STATE_OFF)"

subsection \<open>Reading the device's answers\<close>

text \<open>The number of round trips begun on the socket so far.\<close>

definition round_trips :: "'f mlctrl \<Rightarrow> nat" where
  "round_trips s = (case avr_socket s of None \<Rightarrow> 0 | Some k \<Rightarrow> length (sent k))"

text \<open>
  The text that round trip number \<open>n\<close> hands to the caller, carriage returns and line
  feeds removed, when the socket is there and that round trip yields a text; \<open>None\<close>
  when there is no socket or the round trip raises.
\<close>

definition reply_at :: "'f mlctrl \<Rightarrow> nat \<Rightarrow> string option" where
  "reply_at s n =
     (case avr_socket s of
        None \<Rightarrow> None
      | Some k \<Rightarrow>
          (case replies k n of
             Text t \<Rightarrow> Some (py_remove LF (py_remove CR t))
           | _ \<Rightarrow> None))"

text \<open>The text of the next round trip.\<close>

definition reply_text :: "'f mlctrl \<Rightarrow> string option" where
  "reply_text s = reply_at s (round_trips s)"

text \<open>
  The replies on which \<^verbatim>\<open>update_current_source\<close> calls itself: the marker of the
  \<^verbatim>\<open>ACT\<close> query, no \<^verbatim>\<open>ACK\<close>, and \<^verbatim>\<open>APROF\<close>.
\<close>

definition is_echo :: "string \<Rightarrow> bool" where
  "is_echo t = (py_in ''RSP:CS:ACT:'' t \<and> \<not> py_in ''ACK'' t \<and> py_in ''APROF'' t)"

definition echo_at :: "'f mlctrl \<Rightarrow> nat \<Rightarrow> bool" where
  "echo_at s n = (case reply_at s n of None \<Rightarrow> False | Some t \<Rightarrow> is_echo t)"

subsection \<open>Floats for the examples\<close>

text \<open>
  The examples below run the methods on a handful of volumes, all multiples of 0.5 of
  small size, written as plain decimals: -1.0, -5, 23.5 and 42.5. Python's floats
  hold such numbers exactly, add and subtract them exactly, read them from such texts
  and print them in the same notation. The record \<open>decimal_floats\<close> has a rational
  number for each float and does the same. It stands in for Python's floats on these
  numbers and texts only: it does not round, and it knows no exponent, no white space
  and no \<^verbatim>\<open>inf\<close> or \<^verbatim>\<open>nan\<close>, so elsewhere it is not Python's \<^verbatim>\<open>float\<close> and
  \<^verbatim>\<open>str\<close>. No statement about all replies or all volumes is made with it.
\<close>

text \<open>The code point of a character, \<^verbatim>\<open>ord(c)\<close>.\<close>

definition ord :: "char \<Rightarrow> nat" where
  "ord c = of_char c"

definition is_digit :: "char \<Rightarrow> bool" where
  "is_digit c = (48 \<le> ord c \<and> ord c \<le> 57)"

definition digit_val :: "char \<Rightarrow> nat" where
  "digit_val c = ord c - 48"

text \<open>The value of a run of digits read as a decimal numeral.\<close>

definition digits_val :: "string \<Rightarrow> nat" where
  "digits_val ds = foldl (\<lambda>n d. 10 * n + digit_val d) 0 ds"

text \<open>Digits, or digits, a point and digits: the number they write.\<close>

definition dec_unsigned :: "string \<Rightarrow> rat option" where
  "dec_unsigned s =
     (let ip = takeWhile is_digit s; r = dropWhile is_digit s in
      if ip = [] then None
      else (case r of
              [] \<Rightarrow> Some (of_nat (digits_val ip))
            | c # fp \<Rightarrow>
                if c = CHR ''.'' \<and> fp \<noteq> [] \<and> list_all is_digit fp
                then Some (of_nat (digits_val ip) + of_nat (digits_val fp) / 10 ^ length fp)
                else None))"

text \<open>The same behind an optional minus sign.\<close>

definition dec_float_of_str :: "string \<Rightarrow> rat option" where
  "dec_float_of_str s =
     (case s of
        [] \<Rightarrow> None
      | c # cs \<Rightarrow>
          if c = CHR ''-'' then map_option uminus (dec_unsigned cs) else dec_unsigned s)"

definition digit_char :: "nat \<Rightarrow> char" where
  "digit_char d = char_of (48 + d)"

text \<open>The decimal numeral of a natural number, built from the last digit back.\<close>

fun nat_digits :: "nat \<Rightarrow> nat \<Rightarrow> string \<Rightarrow> string" where
  "nat_digits 0 n acc = acc"
| "nat_digits (Suc k) n acc =
     (if n < 10 then digit_char n # acc
      else nat_digits k (n div 10) (digit_char (n mod 10) # acc))"

definition nat_str :: "nat \<Rightarrow> string" where
  "nat_str n = nat_digits (Suc n) n []"

text \<open>The digits of \<open>num / den\<close> after the point, at most \<open>k\<close> of them.\<close>

fun frac_digits :: "nat \<Rightarrow> nat \<Rightarrow> nat \<Rightarrow> string" where
  "frac_digits 0 num den = []"
| "frac_digits (Suc k) num den =
     (if num = 0 then []
      else digit_char ((10 * num) div den) # frac_digits k ((10 * num) mod den) den)"

text \<open>
  A number in the notation \<^verbatim>\<open>str\<close> gives the floats of the examples: a minus sign if
  it is negative, the integer part, a point, and the digits behind it, \<^verbatim>\<open>0\<close> if there
  are none.
\<close>

definition dec_str_of_float :: "rat \<Rightarrow> string" where
  "dec_str_of_float r =
     (let (n, d) = quotient_of r;
          a = nat \<bar>n\<bar>;
          fr = frac_digits 17 (a mod nat d) (nat d)
      in (if n < 0 then ''-'' else [])
         @ nat_str (a div nat d) @ ''.'' @ (if fr = [] then ''0'' else fr))"

text \<open>A float or an int as a rational number.\<close>

fun dec_of_num :: "rat + int \<Rightarrow> rat" where
  "dec_of_num (Inl x) = x"
| "dec_of_num (Inr i) = of_int i"

definition dec_truediv :: "rat + int \<Rightarrow> rat + int \<Rightarrow> exn + rat" where
  "dec_truediv a b =
     (if dec_of_num b = 0 then Inl ZeroDivisionError
      else Inr (dec_of_num a / dec_of_num b))"

definition decimal_floats :: "rat float_ops" where
  "decimal_floats =
     \<lparr>float_of_str = dec_float_of_str,
      str_of_float = dec_str_of_float,
      float_add = (\<lambda>x y. x + y),
      float_sub = (\<lambda>x y. x - y),
      num_truediv = dec_truediv,
      float_bool = (\<lambda>x. x \<noteq> 0),
      lit_minus_1 = - 1,
      lit_half = 1 / 2,
      lit_zero = 0\<rparr>"

text \<open>
  An object as \<^verbatim>\<open>__init__\<close> leaves its fields before the first refresh, connected
  to the device \<open>dev\<close>.
\<close>

definition client_of :: "'f float_ops \<Rightarrow> (nat \<Rightarrow> io) \<Rightarrow> 'f mlctrl" where
  "client_of fl dev =
     (initial_fields fl ''avr'' 15003 None)
       \<lparr>avr_socket := Some \<lparr>replies = dev, sent = []\<rparr>\<rparr>"

text \<open>The invariant that ties the on/off state to the power mode.\<close>

definition coherent :: "'f mlctrl \<Rightarrow> bool" where
  "coherent s = (avr_state s = derived_state (avr_power s))"

text \<open>
  Two devices for \<^verbatim>\<open>update_current_source\<close>: one answers the first two queries
  with an audio-profile text and every later one with the activity \<^verbatim>\<open>TV\<close>, the other
  answers every query with the audio-profile text.
\<close>

definition echo_twice :: "nat \<Rightarrow> io" where
  "echo_twice n = (if n < 2 then Text ''RSP:CS:ACT:APROF'' else Text ''RSP:CS:ACT:TV'')"

definition echo_always :: "nat \<Rightarrow> io" where
  "echo_always n = Text ''RSP:CS:ACT:APROF''"

section \<open>Properties\<close>

subsection \<open>Transport\<close>

lemmas transport_defs =
  send_command_def exec_appcommand_post_def except_RequestException_def
  COMMAND_MAPPING_def

lemmas eval_defs =
  transport_defs client_of_def initial_fields_def py_index_def py_remove_def CR_def LF_def

text \<open>A round trip touches no field but the socket.\<close>

lemma send_command_fields:
  "\<exists>k'. snd (send_command c p s) = s\<lparr>avr_socket := k'\<rparr>"
proof (cases "map_of COMMAND_MAPPING c")
  case None
  then have "snd (send_command c p s) = s\<lparr>avr_socket := avr_socket s\<rparr>"
    by (simp add: send_command_def)
  then show ?thesis by blast
next
  case (Some comm)
  show ?thesis
  proof (cases "avr_socket s")
    case None
    with Some have "snd (send_command c p s) = s\<lparr>avr_socket := avr_socket s\<rparr>"
      by (simp add: send_command_def exec_appcommand_post_def except_RequestException_def)
    then show ?thesis by blast
  next
    case (Some k)
    with \<open>map_of COMMAND_MAPPING c = Some comm\<close> show ?thesis
      by (cases "replies k (length (sent k))")
         (auto simp: send_command_def exec_appcommand_post_def
            except_RequestException_def Let_def)
  qed
qed

text \<open>The outcome of a round trip for a command of the table, case by case.\<close>

lemma send_command_known:
  assumes "map_of COMMAND_MAPPING c = Some comm"
  shows "send_command c p s =
    (case avr_socket s of
       None \<Rightarrow> (Inl AttributeError, s)
     | Some k \<Rightarrow>
        (let s1 = s\<lparr>avr_socket := Some (k\<lparr>sent := sent k @
                    [if p \<noteq> [] then comm @ p @ [CR] else comm @ [CR]]\<rparr>)\<rparr> in
         case replies k (length (sent k)) of
           SendRaises e \<Rightarrow> if is_RequestException e then (Inr RFalse, s1) else (Inl e, s1)
         | RecvRaises e \<Rightarrow> if is_RequestException e then (Inr RFalse, s1) else (Inl e, s1)
         | Undecodable \<Rightarrow> (Inl UnicodeDecodeError, s1)
         | Text t \<Rightarrow> (Inr (RText (py_remove LF (py_remove CR t))), s1)))"
  using assms
  by (simp add: send_command_def exec_appcommand_post_def except_RequestException_def Let_def
       split: option.splits io.splits)

subsection \<open>Splitting and searching strings\<close>

lemma length_py_split: "length (py_split c s) = Suc (length (filter (\<lambda>x. x = c) s))"
  by (induction s) (auto split: list.splits)

lemma py_split_nonempty: "py_split c s \<noteq> []"
  using length_py_split [of c s] by auto

lemma starts_with_append: "starts_with n h \<Longrightarrow> \<exists>r. h = n @ r"
  by (induction n h rule: starts_with.induct) auto

lemma py_in_append: "py_in n h \<Longrightarrow> \<exists>a b. h = a @ n @ b"
proof (induction h)
  case Nil
  then show ?case by simp
next
  case (Cons y ys)
  from Cons.prems have "starts_with n (y # ys) \<or> py_in n ys" by simp
  then show ?case
  proof
    assume "starts_with n (y # ys)"
    then obtain r where "y # ys = n @ r" using starts_with_append by blast
    then have "y # ys = [] @ n @ r" by simp
    then show ?thesis by blast
  next
    assume "py_in n ys"
    then obtain a b where "ys = a @ n @ b" using Cons.IH by blast
    then have "y # ys = (y # a) @ n @ b" by simp
    then show ?thesis by blast
  qed
qed

lemma py_in_count:
  assumes "py_in n h"
  shows "length (filter (\<lambda>x. x = c) n) \<le> length (filter (\<lambda>x. x = c) h)"
proof -
  from assms obtain a b where "h = a @ n @ b" using py_in_append by blast
  then show ?thesis by simp
qed

text \<open>
  A text that holds a marker with three colons has at least four fields, so the
  source's \<^verbatim>\<open>resp.split(":")[3]\<close> does not raise behind such a marker.
\<close>

lemma marker_fields:
  assumes "py_in n t" and "3 \<le> length (filter (\<lambda>x. x = CHR '':'') n)"
  shows "py_index (py_split CHR '':'' t) 3 = Inr (py_split CHR '':'' t ! 3)"
proof -
  have "3 \<le> length (filter (\<lambda>x. x = CHR '':'') t)"
    using py_in_count [OF assms(1), of "CHR '':''"] assms(2) by simp
  then show ?thesis by (simp add: py_index_def length_py_split)
qed

lemma fields_sources:
  assumes "py_in ''RSP:CS:REQ_ACT_LIST:'' t"
  shows "py_index (py_split CHR '':'' t) 3 = Inr (py_split CHR '':'' t ! 3)"
proof -
  have "length (filter (\<lambda>x. x = CHR '':'') ''RSP:CS:REQ_ACT_LIST:'') = 3" by simp
  then show ?thesis using marker_fields [OF assms] by simp
qed

lemma fields_act:
  assumes "py_in ''RSP:CS:ACT:'' t"
  shows "py_index (py_split CHR '':'' t) 3 = Inr (py_split CHR '':'' t ! 3)"
proof -
  have "length (filter (\<lambda>x. x = CHR '':'') ''RSP:CS:ACT:'') = 3" by simp
  then show ?thesis using marker_fields [OF assms] by simp
qed

lemma fields_vol:
  assumes "py_in ''RSP:CS:VOL:'' t \<or> py_in ''NTF:UI:VOL:'' t"
  shows "py_index (py_split CHR '':'' t) 3 = Inr (py_split CHR '':'' t ! 3)"
proof -
  have "length (filter (\<lambda>x. x = CHR '':'') ''RSP:CS:VOL:'') = 3"
    and "length (filter (\<lambda>x. x = CHR '':'') ''NTF:UI:VOL:'') = 3" by simp_all
  then show ?thesis using assms marker_fields [of _ t] by auto
qed

lemma fields_mute:
  assumes "py_in ''RSP:CS:MUTE:'' t"
  shows "py_index (py_split CHR '':'' t) 3 = Inr (py_split CHR '':'' t ! 3)"
proof -
  have "length (filter (\<lambda>x. x = CHR '':'') ''RSP:CS:MUTE:'') = 3" by simp
  then show ?thesis using marker_fields [OF assms] by simp
qed

subsection \<open>Power\<close>

text \<open>
  C5. \<^verbatim>\<open>update_power_state\<close> maps the three heartbeat replies to their pairs:
  \<^verbatim>\<open>RSP:CS:PWR:ON\<close> to power \<^verbatim>\<open>ON\<close> and state \<^verbatim>\<open>on\<close>, \<^verbatim>\<open>RSP:CS:PWR:STANDBY\<close> to
  \<^verbatim>\<open>STANDBY\<close> and \<^verbatim>\<open>off\<close>, \<^verbatim>\<open>RSP:CS:PWR:OFF\<close> to \<^verbatim>\<open>OFF\<close> and \<^verbatim>\<open>off\<close>. On every
  other reply text, and when the round trip yields no text at all, power and state stay
  as they were.
\<close>

theorem update_power_state_mapping:
  "(avr_power (snd (update_power_state s)), avr_state (snd (update_power_state s))) =
     (case reply_text s of
        None \<Rightarrow> (avr_power s, avr_state s)
      | Some r \<Rightarrow>
          if r = ''RSP:CS:PWR:ON'' then (Some ''ON'', Some ''on'')
          else if r = ''RSP:CS:PWR:STANDBY'' then (Some ''STANDBY'', Some ''off'')
          else if r = ''RSP:CS:PWR:OFF'' then (Some ''OFF'', Some ''off'')
          else (avr_power s, avr_state s))"
proof (cases "avr_socket s")
  case None
  then show ?thesis
    by (simp add: update_power_state_def transport_defs reply_text_def reply_at_def)
next
  case (Some k)
  then show ?thesis
    by (cases "replies k (length (sent k))")
       (simp_all add: update_power_state_def transport_defs reply_text_def reply_at_def
          round_trips_def Let_def POWER_ON_def POWER_OFF_def POWER_STANDBY_def STATE_ON_def STATE_OFF_def)
qed

subsection \<open>The list of sources\<close>

text \<open>
  C2, as the code has it. \<^verbatim>\<open>update_sources\<close> takes the fourth colon-delimited
  field of a reply that holds the marker \<^verbatim>\<open>RSP:CS:REQ_ACT_LIST:\<close> and splits it at the
  commas: the reply \<^verbatim>\<open>RSP:CS:REQ_ACT_LIST:A,B,C\<close> gives the list A, B, C. On a reply
  without the marker, and when the round trip yields no text, the list stays as it was.
\<close>

theorem update_sources_fourth_field:
  "avr_sources (snd (update_sources s)) =
     (case reply_text s of
        None \<Rightarrow> avr_sources s
      | Some r \<Rightarrow>
          if py_in ''RSP:CS:REQ_ACT_LIST:'' r
          then py_split CHR '','' (py_split CHR '':'' r ! 3)
          else avr_sources s)
   \<and> avr_sources (snd (update_sources
         (client_of fl (\<lambda>n. Text ''RSP:CS:REQ_ACT_LIST:A,B,C'')))) = [''A'', ''B'', ''C'']"
proof
  have m: "map_of COMMAND_MAPPING ''GET_SOURCES'' = Some ''RQST:CS:REQ_ACT_LIST:?''"
    by (simp add: COMMAND_MAPPING_def)
  show "avr_sources (snd (update_sources s)) =
     (case reply_text s of
        None \<Rightarrow> avr_sources s
      | Some r \<Rightarrow>
          if py_in ''RSP:CS:REQ_ACT_LIST:'' r
          then py_split CHR '','' (py_split CHR '':'' r ! 3)
          else avr_sources s)"
  proof (cases "avr_socket s")
    case None
    then show ?thesis
      by (simp add: update_sources_def send_command_known [OF m] except_RequestException_def
            reply_text_def reply_at_def)
  next
    case (Some k)
    then show ?thesis
      by (cases "replies k (length (sent k))")
         (auto simp: update_sources_def send_command_known [OF m] except_RequestException_def
            reply_text_def reply_at_def round_trips_def Let_def fields_sources)
  qed
  show "avr_sources (snd (update_sources
         (client_of fl (\<lambda>n. Text ''RSP:CS:REQ_ACT_LIST:A,B,C'')))) = [''A'', ''B'', ''C'']"
    by (simp add: update_sources_def transport_defs client_of_def initial_fields_def
          py_index_def py_remove_def CR_def LF_def)
qed

text \<open>
  On the reply \<^verbatim>\<open>RSP:CS:REQ_ACT_LIST:NAMES:A,B,C\<close> the fourth field is \<^verbatim>\<open>NAMES\<close>,
  and the list of sources becomes that one name, not A, B, C.
\<close>

theorem update_sources_names_counterexample:
  "avr_sources (snd (update_sources
       (client_of decimal_floats (\<lambda>n. Text ''RSP:CS:REQ_ACT_LIST:NAMES:A,B,C'')))) = [''NAMES'']
   \<and> avr_sources (snd (update_sources
       (client_of decimal_floats (\<lambda>n. Text ''RSP:CS:REQ_ACT_LIST:NAMES:A,B,C'')))) \<noteq> [''A'', ''B'', ''C'']"
  by (simp add: update_sources_def transport_defs client_of_def initial_fields_def
        py_index_def py_remove_def CR_def LF_def)

subsection \<open>Setting and reading the volume\<close>

text \<open>
  C3, as the code has it. \<^verbatim>\<open>set_volume\<close> stores the requested value only behind its
  test \<^verbatim>\<open>"ACK" in resp\<close>: after a round trip that yields a text, the cached volume
  is the requested one if the text holds \<^verbatim>\<open>ACK\<close> and the previous one if not, and
  the call returns \<^verbatim>\<open>True\<close> either way.
\<close>

theorem set_volume_ack_gate:
  "avr_volume (snd (set_volume fl v s)) =
     (case reply_text s of
        None \<Rightarrow> avr_volume s
      | Some r \<Rightarrow> if py_in ''ACK'' r then v else avr_volume s)
   \<and> (reply_text s \<noteq> None \<longrightarrow> fst (set_volume fl v s) = Inr True)"
proof -
  have m: "map_of COMMAND_MAPPING ''VOLUME'' = Some ''RQST:CS:VOL:''"
    by (simp add: COMMAND_MAPPING_def)
  show ?thesis
  proof (cases "avr_socket s")
    case None
    then show ?thesis
      by (simp add: set_volume_def send_command_known [OF m] except_RequestException_def
            reply_text_def reply_at_def)
  next
    case (Some k)
    then show ?thesis
      by (cases "replies k (length (sent k))")
         (auto simp: set_volume_def send_command_known [OF m] except_RequestException_def
            reply_text_def reply_at_def round_trips_def Let_def)
  qed
qed

text \<open>The request for 42.5 answered by \<^verbatim>\<open>RSP:CS:VOL:ACK\<close>: the cache holds 42.5.\<close>

theorem set_volume_ack_gate_witness:
  "reply_text (client_of decimal_floats (\<lambda>n. Text ''RSP:CS:VOL:ACK'')) \<noteq> None
   \<and> fst (set_volume decimal_floats (85 / 2)
            (client_of decimal_floats (\<lambda>n. Text ''RSP:CS:VOL:ACK''))) = Inr True
   \<and> avr_volume (snd (set_volume decimal_floats (85 / 2)
            (client_of decimal_floats (\<lambda>n. Text ''RSP:CS:VOL:ACK'')))) = 85 / 2"
  using set_volume_ack_gate
    [of decimal_floats "85 / 2" "client_of decimal_floats (\<lambda>n. Text ''RSP:CS:VOL:ACK'')"]
  by (simp add: reply_text_def reply_at_def round_trips_def client_of_def py_remove_def
        CR_def LF_def)

text \<open>
  The request for 42.5 answered by \<^verbatim>\<open>RSP:CS:VOL:42.5\<close>, a text without \<^verbatim>\<open>ACK\<close>:
  the call returns \<^verbatim>\<open>True\<close> and the cache still holds -1.0.
\<close>

theorem set_volume_counterexample:
  "fst (set_volume decimal_floats (85 / 2)
          (client_of decimal_floats (\<lambda>n. Text ''RSP:CS:VOL:42.5''))) = Inr True
   \<and> avr_volume (snd (set_volume decimal_floats (85 / 2)
          (client_of decimal_floats (\<lambda>n. Text ''RSP:CS:VOL:42.5'')))) = - 1
   \<and> avr_volume (snd (set_volume decimal_floats (85 / 2)
          (client_of decimal_floats (\<lambda>n. Text ''RSP:CS:VOL:42.5'')))) \<noteq> 85 / 2"
  by (simp add: set_volume_def eval_defs decimal_floats_def)

text \<open>
  C6, as the code has it. \<^verbatim>\<open>update_volume\<close> stores what \<^verbatim>\<open>float\<close> reads from the
  fourth field, whatever its sign, and -1.0 when \<^verbatim>\<open>float\<close> rejects the field with
  \<^verbatim>\<open>ValueError\<close>. That happens on a reply text that holds one of the two volume
  markers and no \<^verbatim>\<open>ACK\<close>; on any other outcome the cached volume stays as it was.
  The statement holds whatever \<^verbatim>\<open>float\<close> reads from a text: the method puts no
  test of its own between \<^verbatim>\<open>float\<close> and the cache.
\<close>

theorem update_volume_parsed:
  "avr_volume (snd (update_volume fl s)) =
     (case reply_text s of
        None \<Rightarrow> avr_volume s
      | Some r \<Rightarrow>
          if (py_in ''RSP:CS:VOL:'' r \<or> py_in ''NTF:UI:VOL:'' r) \<and> \<not> py_in ''ACK'' r
          then (case float_of_str fl (py_split CHR '':'' r ! 3) of
                  None \<Rightarrow> lit_minus_1 fl
                | Some x \<Rightarrow> x)
          else avr_volume s)"
proof -
  have m: "map_of COMMAND_MAPPING ''VOLUME'' = Some ''RQST:CS:VOL:''"
    by (simp add: COMMAND_MAPPING_def)
  show ?thesis
  proof (cases "avr_socket s")
    case None
    then show ?thesis
      by (simp add: update_volume_def send_command_known [OF m] except_RequestException_def
            reply_text_def reply_at_def)
  next
    case (Some k)
    then show ?thesis
      by (cases "replies k (length (sent k))")
         (auto simp: update_volume_def send_command_known [OF m] except_RequestException_def
            reply_text_def reply_at_def round_trips_def Let_def fields_vol
            split: option.splits)
  qed
qed

lemma dec_float_of_str_minus_5: "dec_float_of_str ''-5'' = Some (- 5)"
  by code_simp

lemma dec_float_of_str_23_5: "dec_float_of_str ''23.5'' = Some (47 / 2)"
  by code_simp

text \<open>
  The reply \<^verbatim>\<open>RSP:CS:VOL:-5\<close>: \<^verbatim>\<open>float("-5")\<close> is -5.0, and the cached volume
  becomes -5.0, which is negative and is not the sentinel.
\<close>

theorem update_volume_negative_counterexample:
  "avr_volume (snd (update_volume decimal_floats
      (client_of decimal_floats (\<lambda>n. Text ''RSP:CS:VOL:-5'')))) = - 5
   \<and> \<not> (0 \<le> avr_volume (snd (update_volume decimal_floats
             (client_of decimal_floats (\<lambda>n. Text ''RSP:CS:VOL:-5''))))
        \<or> avr_volume (snd (update_volume decimal_floats
             (client_of decimal_floats (\<lambda>n. Text ''RSP:CS:VOL:-5'')))) = - 1)"
  by (simp add: update_volume_def eval_defs decimal_floats_def dec_float_of_str_minus_5)

lemma dec_str_of_float_minus_1: "dec_str_of_float (- 1) = ''-1.0''"
  by code_simp

lemma dec_str_of_float_23_5: "dec_str_of_float (47 / 2) = ''23.5''"
  by code_simp

lemma py_truediv_str: "py_truediv fl (PStr t) b = Inl TypeError"
  by (simp add: py_truediv_def)

text \<open>
  C9. The property \<^verbatim>\<open>volume\<close> returns a string, the \<^verbatim>\<open>str\<close> of the cached float
  and no float: \<^verbatim>\<open>-1.0\<close> on a new object, \<^verbatim>\<open>23.5\<close> once \<^verbatim>\<open>update_volume\<close> has
  cached the reply \<^verbatim>\<open>RSP:CS:VOL:23.5\<close>. Dividing what it returns by 100 raises
  \<^verbatim>\<open>TypeError\<close> in every state, and so does the platform's expression
  \<^verbatim>\<open>self._avr.volume / 100 if self._avr.volume else 0.0\<close> whenever the string is not
  empty, as it is in both examples.
\<close>

theorem volume_prop_is_string:
  "volume_prop fl s = PStr (str_of_float fl (avr_volume s))
   \<and> (\<forall>x. volume_prop fl s \<noteq> PFloat x)
   \<and> py_truediv fl (volume_prop fl s) (PInt 100) = Inl TypeError
   \<and> MLAvrDevice_volume fl s =
       (if str_of_float fl (avr_volume s) = [] then Inr (PFloat (lit_zero fl))
        else Inl TypeError)
   \<and> volume_prop decimal_floats (initial_fields decimal_floats host port name) = PStr ''-1.0''
   \<and> MLAvrDevice_volume decimal_floats (initial_fields decimal_floats host port name)
       = Inl TypeError
   \<and> volume_prop decimal_floats (snd (update_volume decimal_floats
         (client_of decimal_floats (\<lambda>n. Text ''RSP:CS:VOL:23.5'')))) = PStr ''23.5''
   \<and> MLAvrDevice_volume decimal_floats (snd (update_volume decimal_floats
         (client_of decimal_floats (\<lambda>n. Text ''RSP:CS:VOL:23.5'')))) = Inl TypeError"
proof -
  have g: "volume_prop fl s = PStr (str_of_float fl (avr_volume s))
      \<and> (\<forall>x. volume_prop fl s \<noteq> PFloat x)
      \<and> py_truediv fl (volume_prop fl s) (PInt 100) = Inl TypeError
      \<and> MLAvrDevice_volume fl s =
          (if str_of_float fl (avr_volume s) = [] then Inr (PFloat (lit_zero fl))
           else Inl TypeError)"
    by (simp add: volume_prop_def MLAvrDevice_volume_def py_truediv_str)
  have v0: "avr_volume (initial_fields decimal_floats host port name) = - 1"
    by (simp add: initial_fields_def decimal_floats_def)
  have v1: "avr_volume (snd (update_volume decimal_floats
         (client_of decimal_floats (\<lambda>n. Text ''RSP:CS:VOL:23.5'')))) = 47 / 2"
    by (simp add: update_volume_def eval_defs decimal_floats_def dec_float_of_str_23_5)
  have s: "str_of_float decimal_floats = dec_str_of_float"
    by (simp add: decimal_floats_def)
  have e: "volume_prop decimal_floats (initial_fields decimal_floats host port name)
             = PStr ''-1.0''
      \<and> MLAvrDevice_volume decimal_floats (initial_fields decimal_floats host port name)
          = Inl TypeError
      \<and> volume_prop decimal_floats (snd (update_volume decimal_floats
            (client_of decimal_floats (\<lambda>n. Text ''RSP:CS:VOL:23.5'')))) = PStr ''23.5''
      \<and> MLAvrDevice_volume decimal_floats (snd (update_volume decimal_floats
            (client_of decimal_floats (\<lambda>n. Text ''RSP:CS:VOL:23.5'')))) = Inl TypeError"
    by (simp add: volume_prop_def MLAvrDevice_volume_def py_truediv_str v0 v1 s
          dec_str_of_float_minus_1 dec_str_of_float_23_5)
  from g e show ?thesis by blast
qed

subsection \<open>Selecting a source\<close>

text \<open>
  C7. When the round trip of \<^verbatim>\<open>select_source\<close> does not raise, the call returns
  \<^verbatim>\<open>True\<close> and the current source is the requested name, whatever the reply and
  whether or not the name holds \<^verbatim>\<open>ACK\<close>: the two branches of the test end in the same
  fields and the same value.
\<close>

theorem select_source_optimistic:
  assumes "fst (send_command ''SOURCE'' name s) = Inr r"
  shows "select_source name s =
           (Inr True, (snd (send_command ''SOURCE'' name s))\<lparr>avr_current_source := Some name\<rparr>)"
  using assms
  by (cases "send_command ''SOURCE'' name s")
     (simp add: select_source_def except_RequestException_def Let_def)

text \<open>A name that holds \<^verbatim>\<open>ACK\<close>, against a device that answers something else.\<close>

theorem select_source_optimistic_witness:
  "fst (send_command ''SOURCE'' ''JACK'' (client_of decimal_floats (\<lambda>n. Text ''RSP:CS:ACT:NAK'')))
     = Inr (RText ''RSP:CS:ACT:NAK'')
   \<and> fst (select_source ''JACK'' (client_of decimal_floats (\<lambda>n. Text ''RSP:CS:ACT:NAK''))) = Inr True
   \<and> avr_current_source (snd (select_source ''JACK'' (client_of decimal_floats (\<lambda>n. Text ''RSP:CS:ACT:NAK''))))
       = Some ''JACK''"
proof -
  have h: "fst (send_command ''SOURCE'' ''JACK'' (client_of decimal_floats (\<lambda>n. Text ''RSP:CS:ACT:NAK'')))
             = Inr (RText ''RSP:CS:ACT:NAK'')"
    by (simp add: eval_defs)
  show ?thesis
    using h select_source_optimistic [OF h] by simp
qed

subsection \<open>The decoder\<close>

text \<open>
  C10, as the code has it. On a message with fewer than four colon-delimited fields
  \<^verbatim>\<open>decode_message\<close> raises \<^verbatim>\<open>IndexError\<close> at the first field that is missing: the
  source for one field, the command for two, the parameter for three, as on
  \<^verbatim>\<open>RSP:CS:PWR\<close>. On a message with four fields or more it returns \<^verbatim>\<open>None\<close>.
\<close>

theorem decode_message_fields:
  "decode_message m =
     (if length (py_split CHR '':'' m) < 2 then Inl (IndexError, Source)
      else if length (py_split CHR '':'' m) < 3 then Inl (IndexError, Command)
      else if length (py_split CHR '':'' m) < 4 then Inl (IndexError, Param)
      else Inr PNone)
   \<and> decode_message ''RSP:CS:PWR'' = Inl (IndexError, Param)
   \<and> decode_message ''RSP:CS:PWR:ON'' = Inr PNone"
proof -
  have "0 < length (py_split CHR '':'' m)"
    using py_split_nonempty [of "CHR '':''" m] by simp
  then have "decode_message m =
     (if length (py_split CHR '':'' m) < 2 then Inl (IndexError, Source)
      else if length (py_split CHR '':'' m) < 3 then Inl (IndexError, Command)
      else if length (py_split CHR '':'' m) < 4 then Inl (IndexError, Param)
      else Inr PNone)"
    by (simp add: decode_message_def py_index_def Let_def)
  moreover have "decode_message ''RSP:CS:PWR'' = Inl (IndexError, Param)"
    by (simp add: decode_message_def py_index_def)
  moreover have "decode_message ''RSP:CS:PWR:ON'' = Inr PNone"
    by (simp add: decode_message_def py_index_def)
  ultimately show ?thesis by simp
qed

text \<open>
  The message \<^verbatim>\<open>RSP\<close> has one field: the assignment of the source raises, and the
  one of the parameter is not reached.
\<close>

theorem decode_message_one_field_counterexample:
  "decode_message ''RSP'' = Inl (IndexError, Source)
   \<and> decode_message ''RSP'' \<noteq> Inl (IndexError, Param)"
  by (simp add: decode_message_def py_index_def)

subsection \<open>A missing or failing connection\<close>

text \<open>
  C1 fails on the code. A refused connection leaves the socket field \<^verbatim>\<open>None\<close>; the
  next \<^verbatim>\<open>send_command\<close> raises \<^verbatim>\<open>AttributeError\<close>, which no handler of the module
  takes, so \<^verbatim>\<open>update_power_state\<close> and the constructor raise it too. On a connected
  socket an \<^verbatim>\<open>OSError\<close> of \<^verbatim>\<open>recv\<close> and a \<^verbatim>\<open>UnicodeDecodeError\<close> of \<^verbatim>\<open>decode\<close>
  leave \<^verbatim>\<open>send_command\<close> as exceptions as well; the value \<^verbatim>\<open>False\<close> is returned
  only for a \<^verbatim>\<open>RequestException\<close>.
\<close>

theorem send_without_connection_raises:
  "get_new_socket (ConnectRaises ConnectionError) = Inr None
   \<and> send_command ''HEARTBEAT'' [] (initial_fields fl ''avr'' 15003 None)
       = (Inl AttributeError, initial_fields fl ''avr'' 15003 None)
   \<and> fst (update_power_state (initial_fields fl ''avr'' 15003 None)) = Inl AttributeError
   \<and> fst (MLCtrl_init fl ''avr'' 15003 None (ConnectRaises ConnectionError) 1000)
       = Inl AttributeError
   \<and> fst (send_command ''HEARTBEAT'' [] (client_of fl (\<lambda>n. RecvRaises OSError)))
       = Inl OSError
   \<and> fst (send_command ''HEARTBEAT'' [] (client_of fl (\<lambda>n. Undecodable)))
       = Inl UnicodeDecodeError"
  by (simp add: get_new_socket_def MLCtrl_init_def update_all_def and_then_def
        update_power_state_def eval_defs)

subsection \<open>The current source\<close>

lemma is_RequestException_iff: "is_RequestException e \<longleftrightarrow> e = RequestException"
  by (cases e) simp_all

lemma except_RequestException_id:
  assumes "fst body \<noteq> Inl RequestException"
  shows "except_RequestException body handler = body"
  using assms
  by (cases body) (auto simp: except_RequestException_def is_RequestException_iff
        split: sum.splits)

lemma except_RequestException_never:
  "fst (except_RequestException body (\<lambda>s'. (Inr v, s'))) \<noteq> Inl RequestException"
  by (cases body) (auto simp: except_RequestException_def is_RequestException_iff
        split: sum.splits)

lemma update_current_source_no_RequestException:
  "fst (update_current_source d s) \<noteq> Inl RequestException"
proof (cases d)
  case 0
  then show ?thesis by simp
next
  case (Suc n)
  then show ?thesis
    by (simp only: update_current_source.simps except_RequestException_never not_False_eq_True)
qed

lemma and_then_unit:
  fixes body :: "(exn + unit) \<times> 'f mlctrl"
  shows "and_then body (\<lambda>s2. (Inr (), s2)) = body"
  by (cases body) (auto simp: and_then_def split: sum.splits)

lemma source_command: "map_of COMMAND_MAPPING ''SOURCE'' = Some ''RQST:CS:ACT:''"
  by (simp add: COMMAND_MAPPING_def)

lemma update_current_source_echo_step:
  assumes "avr_socket s = Some k" and "echo_at s (length (sent k))"
  shows "update_current_source (Suc d) s =
           update_current_source d
             (s\<lparr>avr_socket := Some (k\<lparr>sent := sent k @ [''RQST:CS:ACT:?'' @ [CR]]\<rparr>)\<rparr>)"
proof -
  from assms obtain t where t: "replies k (length (sent k)) = Text t"
    and e: "is_echo (py_remove LF (py_remove CR t))"
    by (auto simp: echo_at_def reply_at_def split: option.splits io.splits)
  from e have ne: "py_remove LF (py_remove CR t) \<noteq> []"
    by (auto simp: is_echo_def)
  let ?s1 = "s\<lparr>avr_socket := Some (k\<lparr>sent := sent k @ [''RQST:CS:ACT:?'' @ [CR]]\<rparr>)\<rparr>"
  have "update_current_source (Suc d) s =
          except_RequestException (update_current_source d ?s1) (\<lambda>s'. (Inr (), s'))"
    using assms(1) t e ne
    by (simp add: send_command_known [OF source_command] is_echo_def Let_def and_then_unit)
  then show ?thesis
    by (simp add: except_RequestException_id update_current_source_no_RequestException)
qed

lemma update_current_source_last_step:
  assumes "avr_socket s = Some k" and "reply_at s (length (sent k)) = Some r"
    and "\<not> is_echo r"
  shows "fst (update_current_source (Suc d) s) = Inr ()
         \<and> round_trips (snd (update_current_source (Suc d) s)) = Suc (length (sent k))"
proof -
  from assms obtain t where t: "replies k (length (sent k)) = Text t"
    and r: "r = py_remove LF (py_remove CR t)"
    by (auto simp: reply_at_def split: option.splits io.splits)
  show ?thesis
    using assms(1,3) t r
    by (auto simp: send_command_known [OF source_command] is_echo_def Let_def
          except_RequestException_def round_trips_def fields_act)
qed

lemma reply_at_sent:
  "avr_socket s = Some k \<Longrightarrow> reply_at (s\<lparr>avr_socket := Some (k\<lparr>sent := x\<rparr>)\<rparr>) n = reply_at s n"
  by (simp add: reply_at_def)

lemma echo_at_sent:
  "avr_socket s = Some k \<Longrightarrow> echo_at (s\<lparr>avr_socket := Some (k\<lparr>sent := x\<rparr>)\<rparr>) n = echo_at s n"
  by (simp add: echo_at_def reply_at_sent)

lemma update_current_source_trips:
  assumes "avr_socket s = Some k"
    and "\<forall>i<j. echo_at s (length (sent k) + i)"
    and "reply_at s (length (sent k) + j) = Some r"
    and "\<not> is_echo r"
    and "j < depth"
  shows "fst (update_current_source depth s) = Inr ()
         \<and> round_trips (snd (update_current_source depth s)) = length (sent k) + j + 1"
  using assms
proof (induction j arbitrary: s k depth)
  case 0
  then obtain d where d: "depth = Suc d" by (cases depth) auto
  from 0 show ?case
    using update_current_source_last_step [of s k r d] by (simp add: d)
next
  case (Suc j)
  then obtain d where d: "depth = Suc d" by (cases depth) auto
  let ?k1 = "k\<lparr>sent := sent k @ [''RQST:CS:ACT:?'' @ [CR]]\<rparr>"
  let ?s1 = "s\<lparr>avr_socket := Some ?k1\<rparr>"
  from Suc.prems(2) have e0: "echo_at s (length (sent k))"
    by (metis add.right_neutral zero_less_Suc)
  have step: "update_current_source depth s = update_current_source d ?s1"
    using update_current_source_echo_step [OF Suc.prems(1) e0] by (simp add: d)
  have p1: "avr_socket ?s1 = Some ?k1" by simp
  have p2: "\<forall>i<j. echo_at ?s1 (length (sent ?k1) + i)"
  proof (intro allI impI)
    fix i assume "i < j"
    then have "Suc i < Suc j" by simp
    with Suc.prems(2) have "echo_at s (length (sent k) + Suc i)" by blast
    then show "echo_at ?s1 (length (sent ?k1) + i)"
      by (simp add: echo_at_sent [OF Suc.prems(1)])
  qed
  have p3: "reply_at ?s1 (length (sent ?k1) + j) = Some r"
    using Suc.prems(3) by (simp add: reply_at_sent [OF Suc.prems(1)])
  have p5: "j < d" using Suc.prems(5) d by simp
  from Suc.IH [OF p1 p2 p3 Suc.prems(4) p5] show ?case
    by (simp add: step)
qed

lemma update_current_source_endless:
  assumes "avr_socket s = Some k"
    and "\<forall>i. echo_at s (length (sent k) + i)"
  shows "fst (update_current_source depth s) = Inl RecursionError
         \<and> round_trips (snd (update_current_source depth s)) = length (sent k) + depth"
  using assms
proof (induction depth arbitrary: s k)
  case 0
  then show ?case by (simp add: round_trips_def)
next
  case (Suc d)
  let ?k1 = "k\<lparr>sent := sent k @ [''RQST:CS:ACT:?'' @ [CR]]\<rparr>"
  let ?s1 = "s\<lparr>avr_socket := Some ?k1\<rparr>"
  from Suc.prems(2) have e0: "echo_at s (length (sent k))"
    by (metis add.right_neutral)
  have step: "update_current_source (Suc d) s = update_current_source d ?s1"
    using update_current_source_echo_step [OF Suc.prems(1) e0] .
  have p1: "avr_socket ?s1 = Some ?k1" by simp
  have p2: "\<forall>i. echo_at ?s1 (length (sent ?k1) + i)"
  proof
    fix i
    from Suc.prems(2) have "echo_at s (length (sent k) + Suc i)" by blast
    then show "echo_at ?s1 (length (sent ?k1) + i)"
      by (simp add: echo_at_sent [OF Suc.prems(1)])
  qed
  have "fst (update_current_source d ?s1) = Inl RecursionError
        \<and> round_trips (snd (update_current_source d ?s1)) = length (sent ?k1) + d"
    by (rule Suc.IH [OF p1 p2])
  then show ?case unfolding step by simp
qed

lemma echo_text: "is_echo ''RSP:CS:ACT:APROF''"
  by (simp add: is_echo_def)

lemma tv_text: "\<not> is_echo ''RSP:CS:ACT:TV''"
  by (simp add: is_echo_def)


text \<open>
  C4, as the code has it. \<^verbatim>\<open>update_current_source\<close> makes one round trip, and one
  more for every reply in a row that carries the marker \<^verbatim>\<open>RSP:CS:ACT:\<close>, no \<^verbatim>\<open>ACK\<close>
  and \<^verbatim>\<open>APROF\<close>. If the next \<open>j\<close> replies are such texts and the one after them is a
  text that is not, the call returns after exactly \<open>j + 1\<close> round trips, given that the
  interpreter allows more than \<open>j\<close> nested calls. If every reply is such a text, the
  call makes a round trip in each nested call the interpreter allows and ends in
  \<^verbatim>\<open>RecursionError\<close>; no bound of one retry stops it before.
\<close>

theorem update_current_source_round_trips:
  "(avr_socket s \<noteq> None \<and> (\<forall>i<j. echo_at s (round_trips s + i))
      \<and> reply_at s (round_trips s + j) = Some r \<and> \<not> is_echo r \<and> j < depth
    \<longrightarrow> fst (update_current_source depth s) = Inr ()
        \<and> round_trips (snd (update_current_source depth s)) = round_trips s + j + 1)
   \<and> (avr_socket s \<noteq> None \<and> (\<forall>i. echo_at s (round_trips s + i))
    \<longrightarrow> fst (update_current_source depth s) = Inl RecursionError
        \<and> round_trips (snd (update_current_source depth s)) = round_trips s + depth)"
proof (cases "avr_socket s")
  case None
  then show ?thesis by simp
next
  case (Some k)
  then have rt: "round_trips s = length (sent k)" by (simp add: round_trips_def)
  show ?thesis
    using update_current_source_trips [OF Some, of j r depth]
      update_current_source_endless [OF Some, of depth]
    by (simp add: rt)
qed


text \<open>
  Two audio-profile texts, then \<^verbatim>\<open>RSP:CS:ACT:TV\<close>: three round trips. And a device
  that never answers anything else, with five nested calls allowed: five round trips
  and \<^verbatim>\<open>RecursionError\<close>.
\<close>

theorem update_current_source_round_trips_witness:
  "fst (update_current_source 5 (client_of decimal_floats echo_twice)) = Inr ()
   \<and> round_trips (snd (update_current_source 5 (client_of decimal_floats echo_twice))) = 3
   \<and> fst (update_current_source 5 (client_of decimal_floats echo_always)) = Inl RecursionError
   \<and> round_trips (snd (update_current_source 5 (client_of decimal_floats echo_always))) = 5"
proof -
  have s1: "avr_socket (client_of decimal_floats echo_twice) \<noteq> None"
    and s2: "avr_socket (client_of decimal_floats echo_always) \<noteq> None"
    by (simp_all add: client_of_def)
  have r0: "round_trips (client_of decimal_floats echo_twice) = 0"
    and r0': "round_trips (client_of decimal_floats echo_always) = 0"
    by (simp_all add: client_of_def round_trips_def)
  have "\<forall>i<2. echo_at (client_of decimal_floats echo_twice) i"
    by (simp add: echo_at_def reply_at_def client_of_def echo_twice_def py_remove_def
          CR_def LF_def echo_text)
  then have e1:
    "\<forall>i<2. echo_at (client_of decimal_floats echo_twice) (round_trips (client_of decimal_floats echo_twice) + i)"
    by (simp add: r0)
  have l1: "reply_at (client_of decimal_floats echo_twice) (round_trips (client_of decimal_floats echo_twice) + 2)
              = Some ''RSP:CS:ACT:TV''"
    unfolding r0 add_0
    by (simp add: reply_at_def client_of_def echo_twice_def py_remove_def CR_def LF_def)
  have "\<forall>i. echo_at (client_of decimal_floats echo_always) i"
    by (simp add: echo_at_def reply_at_def client_of_def echo_always_def py_remove_def
          CR_def LF_def echo_text)
  then have e2:
    "\<forall>i. echo_at (client_of decimal_floats echo_always) (round_trips (client_of decimal_floats echo_always) + i)"
    by simp
  show ?thesis
    using update_current_source_round_trips [of "client_of decimal_floats echo_twice" 2 "''RSP:CS:ACT:TV''" 5]
      update_current_source_round_trips [of "client_of decimal_floats echo_always" 0 "[]" 5]
      s1 s2 e1 l1 e2 tv_text
    by (simp add: r0 r0')
qed

text \<open>
  Two audio-profile texts in a row make \<^verbatim>\<open>update_current_source\<close> go round three
  times before it returns, one more than two.
\<close>

theorem update_current_source_three_trips_counterexample:
  "fst (update_current_source 5 (client_of decimal_floats echo_twice)) = Inr ()
   \<and> round_trips (snd (update_current_source 5 (client_of decimal_floats echo_twice))) = 3
   \<and> \<not> round_trips (snd (update_current_source 5 (client_of decimal_floats echo_twice))) \<le> 2"
proof -
  have "update_current_source (Suc (Suc (Suc (Suc (Suc 0))))) (client_of decimal_floats echo_twice)
          = update_current_source 5 (client_of decimal_floats echo_twice)"
    by (simp add: eval_nat_numeral)
  moreover have "fst (update_current_source (Suc (Suc (Suc (Suc (Suc 0))))) (client_of decimal_floats echo_twice)) = Inr ()
     \<and> round_trips (snd (update_current_source (Suc (Suc (Suc (Suc (Suc 0))))) (client_of decimal_floats echo_twice))) = 3"
    by (simp add: eval_defs echo_twice_def and_then_def round_trips_def)
  ultimately show ?thesis by simp
qed

subsection \<open>The on/off state follows the power mode\<close>

lemma send_command_pair:
  obtains r k' where "send_command c p s = (r, s\<lparr>avr_socket := k'\<rparr>)"
  using send_command_fields [of c p s] by (metis prod.collapse)

lemma coherent_socket [simp]: "coherent (s\<lparr>avr_socket := k\<rparr>) = coherent s"
  by (simp add: coherent_def)

lemma snd_except_RequestException:
  "snd (except_RequestException body (\<lambda>s'. (x, s'))) = snd body"
  by (cases body) (auto simp: except_RequestException_def split: sum.splits)

lemma and_then_coherent:
  assumes "coherent (snd first)" and "\<And>s. coherent s \<Longrightarrow> coherent (snd (rest s))"
  shows "coherent (snd (and_then first rest))"
  using assms by (cases first) (auto simp: and_then_def split: sum.splits)

lemma coherent_values:
  "coherent (s\<lparr>avr_power := Some POWER_ON, avr_state := Some STATE_ON\<rparr>)"
  "coherent (s\<lparr>avr_power := Some POWER_OFF, avr_state := Some STATE_OFF\<rparr>)"
  "coherent (s\<lparr>avr_power := Some POWER_STANDBY, avr_state := Some STATE_OFF\<rparr>)"
  by (simp_all add: coherent_def derived_state_def POWER_ON_def POWER_OFF_def
        POWER_STANDBY_def)

lemma coherent_other_fields [simp]:
  "coherent (s\<lparr>avr_sources := a\<rparr>) = coherent s"
  "coherent (s\<lparr>avr_current_source := b\<rparr>) = coherent s"
  "coherent (s\<lparr>avr_volume := c\<rparr>) = coherent s"
  "coherent (s\<lparr>avr_mute := d\<rparr>) = coherent s"
  by (simp_all add: coherent_def)

lemma send_command_coherent: "coherent s \<Longrightarrow> coherent (snd (send_command c p s))"
  by (rule send_command_pair [of c p s]) simp

lemma update_power_state_coherent:
  "coherent s \<Longrightarrow> coherent (snd (update_power_state s))"
  by (rule send_command_pair [of "''HEARTBEAT''" "[]" s])
     (auto simp: update_power_state_def snd_except_RequestException coherent_values
        split: sum.splits)

lemma update_sources_coherent:
  "coherent s \<Longrightarrow> coherent (snd (update_sources s))"
  by (rule send_command_pair [of "''GET_SOURCES''" "[]" s])
     (auto simp: update_sources_def snd_except_RequestException
        split: sum.splits resp.splits)

lemma update_volume_coherent:
  "coherent s \<Longrightarrow> coherent (snd (update_volume fl s))"
  by (rule send_command_pair [of "''VOLUME''" "''?''" s])
     (auto simp: update_volume_def snd_except_RequestException
        split: sum.splits resp.splits option.splits)

lemma update_mutestate_coherent:
  "coherent s \<Longrightarrow> coherent (snd (update_mutestate s))"
  by (rule send_command_pair [of "''MUTE_TOGGLE''" "''?''" s])
     (auto simp: update_mutestate_def snd_except_RequestException
        split: sum.splits resp.splits)

lemma update_current_source_coherent:
  "coherent s \<Longrightarrow> coherent (snd (update_current_source depth s))"
proof (induction depth arbitrary: s)
  case 0
  then show ?case by simp
next
  case (Suc d)
  obtain r k' where sc: "send_command ''SOURCE'' ''?'' s = (r, s\<lparr>avr_socket := k'\<rparr>)"
    by (rule send_command_pair)
  have "coherent (s\<lparr>avr_socket := k'\<rparr>)" using Suc.prems by simp
  then have "coherent (snd (update_current_source d (s\<lparr>avr_socket := k'\<rparr>)))"
    by (rule Suc.IH)
  then show ?case
    using Suc.prems
    by (auto simp: sc snd_except_RequestException and_then_unit
          split: sum.splits resp.splits)
qed

lemma update_all_coherent:
  fixes s :: "'f mlctrl"
  assumes "coherent s"
  shows "coherent (snd (update_all fl depth s))"
  unfolding update_all_def
proof (intro and_then_coherent)
  show "coherent (snd (update_power_state s))"
    using assms by (rule update_power_state_coherent)
  fix s1 :: "'f mlctrl" assume "coherent s1"
  then show "coherent (snd (update_volume fl s1))" by (rule update_volume_coherent)
  fix s2 :: "'f mlctrl" assume "coherent s2"
  then show "coherent (snd (update_mutestate s2))" by (rule update_mutestate_coherent)
  fix s3 :: "'f mlctrl" assume c3: "coherent s3"
  show "coherent (snd (if avr_power s3 = Some POWER_ON
          then and_then (update_current_source depth s3) update_sources
          else (Inr (), s3)))"
    using c3
    by (auto intro!: and_then_coherent update_current_source_coherent update_sources_coherent)
qed

lemma power_on_coherent: "coherent s \<Longrightarrow> coherent (snd (power_on s))"
  by (rule send_command_pair [of "''POWER_ON''" "[]" s])
     (auto simp: power_on_def snd_except_RequestException coherent_values
        split: sum.splits)


lemma power_off_coherent: "coherent s \<Longrightarrow> coherent (snd (power_off s))"
  by (rule send_command_pair [of "''POWER_OFF''" "[]" s])
     (auto simp: power_off_def snd_except_RequestException coherent_values
        split: sum.splits)

lemma sleep_coherent: "coherent s \<Longrightarrow> coherent (snd (sleep s))"
  by (rule send_command_pair [of "''SLEEP''" "[]" s])
     (auto simp: sleep_def snd_except_RequestException split: sum.splits)

lemma set_volume_coherent: "coherent s \<Longrightarrow> coherent (snd (set_volume fl v s))"
  by (rule send_command_pair [of "''VOLUME''" "str_of_float fl v" s])
     (auto simp: set_volume_def snd_except_RequestException
        split: sum.splits resp.splits)

lemma volume_up_coherent: "coherent s \<Longrightarrow> coherent (snd (volume_up fl s))"
  by (auto simp: volume_up_def snd_except_RequestException Let_def
        intro!: and_then_coherent set_volume_coherent)

lemma volume_down_coherent: "coherent s \<Longrightarrow> coherent (snd (volume_down fl s))"
  by (auto simp: volume_down_def snd_except_RequestException Let_def
        intro!: and_then_coherent set_volume_coherent)

lemma select_source_coherent: "coherent s \<Longrightarrow> coherent (snd (select_source n s))"
  by (rule send_command_pair [of "''SOURCE''" n s])
     (auto simp: select_source_def snd_except_RequestException Let_def
        split: sum.splits)

lemma mute_coherent: "coherent s \<Longrightarrow> coherent (snd (mute m s))"
proof (cases m)
  case True
  assume "coherent s"
  with True show ?thesis
    by - (rule send_command_pair [of "''MUTE_TOGGLE''" "''ON''" s],
          auto simp: mute_def snd_except_RequestException split: sum.splits)
next
  case False
  assume "coherent s"
  with False show ?thesis
    by - (rule send_command_pair [of "''MUTE_TOGGLE''" "''OFF''" s],
          auto simp: mute_def snd_except_RequestException split: sum.splits)
qed

lemma run_op_coherent: "coherent s \<Longrightarrow> coherent (run_op fl depth a s)"
  by (cases a)
     (simp_all add: update_all_coherent update_power_state_coherent update_sources_coherent
        update_current_source_coherent update_volume_coherent update_mutestate_coherent
        power_on_coherent power_off_coherent sleep_coherent volume_up_coherent
        volume_down_coherent set_volume_coherent select_source_coherent mute_coherent
        send_command_coherent)

lemma initial_fields_coherent: "coherent (initial_fields fl host port name)"
  by (simp add: coherent_def initial_fields_def derived_state_def)

lemma MLCtrl_init_coherent: "coherent (snd (MLCtrl_init fl host port name c depth))"
proof (cases "get_new_socket c")
  case (Inl e)
  then show ?thesis by (simp add: MLCtrl_init_def initial_fields_coherent)
next
  case (Inr k)
  have "coherent (snd (update_all fl depth ((initial_fields fl host port name)\<lparr>avr_socket := k\<rparr>)))"
    by (rule update_all_coherent) (simp add: initial_fields_coherent)
  then show ?thesis
    using Inr
    by (auto simp: MLCtrl_init_def Let_def intro!: and_then_coherent split: option.splits)
qed

text \<open>
  C8. The on/off state is a function of the power mode, \<^verbatim>\<open>on\<close> for \<^verbatim>\<open>ON\<close>,
  \<^verbatim>\<open>off\<close> for \<^verbatim>\<open>OFF\<close> and \<^verbatim>\<open>STANDBY\<close>, and \<^verbatim>\<open>None\<close> while the power is
  \<^verbatim>\<open>None\<close>: the constructor leaves the object so, and every public method keeps it
  so, whether it returns or raises. No method writes the state without the power.
\<close>

theorem state_follows_power:
  "(avr_state s = derived_state (avr_power s)
     \<longrightarrow> avr_state (run_op fl depth a s) = derived_state (avr_power (run_op fl depth a s)))
   \<and> avr_state (snd (MLCtrl_init fl host port name c depth))
       = derived_state (avr_power (snd (MLCtrl_init fl host port name c depth)))
   \<and> derived_state None = None
   \<and> derived_state (Some ''ON'') = Some ''on''
   \<and> derived_state (Some ''OFF'') = Some ''off''
   \<and> derived_state (Some ''STANDBY'') = Some ''off''"
  using run_op_coherent [of s fl depth a] MLCtrl_init_coherent [of fl host port name c depth]
  by (simp add: coherent_def derived_state_def POWER_ON_def STATE_ON_def STATE_OFF_def)

text \<open>
  A new object, not yet refreshed, against a device in standby: \<^verbatim>\<open>update_all\<close>
  leaves power \<^verbatim>\<open>STANDBY\<close> and state \<^verbatim>\<open>off\<close>.
\<close>

theorem state_follows_power_witness:
  "avr_state (client_of decimal_floats (\<lambda>n. Text ''RSP:CS:PWR:STANDBY''))
     = derived_state (avr_power (client_of decimal_floats (\<lambda>n. Text ''RSP:CS:PWR:STANDBY'')))
   \<and> avr_power (run_op decimal_floats 5 UpdateAll (client_of decimal_floats (\<lambda>n. Text ''RSP:CS:PWR:STANDBY'')))
       = Some ''STANDBY''
   \<and> avr_state (run_op decimal_floats 5 UpdateAll (client_of decimal_floats (\<lambda>n. Text ''RSP:CS:PWR:STANDBY'')))
       = Some ''off''"
proof -
  let ?s = "client_of decimal_floats (\<lambda>n. Text ''RSP:CS:PWR:STANDBY'')"
  have h: "avr_state ?s = derived_state (avr_power ?s)"
    by (simp add: client_of_def initial_fields_def derived_state_def)
  have p: "avr_power (run_op decimal_floats 5 UpdateAll ?s) = Some ''STANDBY''"
    by (simp add: update_all_def and_then_def update_power_state_def update_volume_def
          update_mutestate_def eval_defs POWER_STANDBY_def POWER_ON_def STATE_OFF_def)
  from state_follows_power [of ?s decimal_floats 5 UpdateAll] h
  have "avr_state (run_op decimal_floats 5 UpdateAll ?s) = derived_state (avr_power (run_op decimal_floats 5 UpdateAll ?s))"
    by blast
  with p have "avr_state (run_op decimal_floats 5 UpdateAll ?s) = Some ''off''"
    by (simp add: derived_state_def POWER_ON_def STATE_OFF_def)
  with h p show ?thesis by simp
qed

end
